theory Spec2Isabelle
  imports Main
begin

section \<open>Block values and block declarations\<close>

text \<open>
  The value held by one block of a stream: text (a character, text, rich-text or URL
  sub-field holds a Python string), a chosen image (its primary key), the items of a
  list block, the named sub-fields of a struct block, or Python's \<open>None\<close>.
\<close>

datatype block_value =
    NoneVal
  | StrVal string
  | ImageVal nat
  | ListVal "block_value list"
  | StructVal "(string \<times> block_value) list"

text \<open>
  The options a block declaration carries, either as keyword arguments of the block's
  constructor or in the \<open>class Meta\<close> of a \<open>StructBlock\<close> subclass. An option the
  source does not write is \<open>None\<close>.
\<close>

record meta =
  icon :: "string option"
  label :: "string option"
  template :: "string option"
  classname :: "string option"
  help_text :: "string option"

definition no_meta :: meta where
  "no_meta = \<lparr>icon = None, label = None, template = None, classname = None, help_text = None\<rparr>"

text \<open>
  The block classes the repository instantiates. Field blocks carry \<open>required\<close>;
  \<open>CharBlock\<close> also carries \<open>default\<close>; \<open>ListBlock\<close> carries its child block and
  \<open>min_num\<close>; \<open>StructBlock\<close> carries its named child blocks in declaration order and
  \<open>default\<close> of a child stays with the child.
\<close>

datatype block_def =
    CharBlock bool "string option" meta
  | TextBlock bool meta
  | RichTextBlock bool meta
  | URLBlock bool meta
  | ImageChooserBlock bool meta
  | ListBlock block_def "nat option" meta
  | StructBlock "(string \<times> block_def) list" meta

fun block_meta :: "block_def \<Rightarrow> meta" where
  "block_meta (CharBlock req dflt m) = m"
| "block_meta (TextBlock req m) = m"
| "block_meta (RichTextBlock req m) = m"
| "block_meta (URLBlock req m) = m"
| "block_meta (ImageChooserBlock req m) = m"
| "block_meta (ListBlock child min_num m) = m"
| "block_meta (StructBlock children m) = m"

section \<open>The stream renderer (customblocks/templatetags/customblocks\_tags.py)\<close>

type_synonym html = string

text \<open>
  One element of a stream value: its type tag, the block it is bound to, and its value
  (\<open>block.block_type\<close>, \<open>block.block\<close> and \<open>block.value\<close> in the source).
\<close>

record stream_child =
  block_type :: string
  block :: block_def
  child_value :: block_value

text \<open>
  \<open>block.block.render(block.value, context=context)\<close> is the framework's method; it
  is the parameter \<open>render\<close>, and a call that raises returns \<open>Inl\<close> of the exception.
  The loop appends each element's HTML to \<open>rendered\<close>; an exception leaves the loop.
\<close>

fun render_loop ::
  "(block_def \<Rightarrow> block_value \<Rightarrow> 'c \<Rightarrow> 'e + html) \<Rightarrow> 'c \<Rightarrow> stream_child list \<Rightarrow> html list
    \<Rightarrow> 'e + html list" where
  "render_loop render context [] rendered = Inr rendered"
| "render_loop render context (b # bs) rendered =
     (case render (block b) (child_value b) context of
        Inl e \<Rightarrow> Inl e
      | Inr h \<Rightarrow> render_loop render context bs (rendered @ [h]))"

text \<open>
  \<open>stream_value\<close> is \<open>None\<close> or a sequence; \<open>not stream_value\<close> holds for \<open>None\<close>
  and for the empty sequence. \<open>"".join(rendered)\<close> is \<open>concat\<close>.
\<close>

definition render_streamfield ::
  "(block_def \<Rightarrow> block_value \<Rightarrow> 'c \<Rightarrow> 'e + html) \<Rightarrow> 'c \<Rightarrow> stream_child list option
    \<Rightarrow> 'e + html" where
  "render_streamfield render context stream_value =
     (case stream_value of
        None \<Rightarrow> Inr ''''
      | Some bs \<Rightarrow>
          if bs = [] then Inr ''''
          else (case render_loop render context bs [] of
                  Inl e \<Rightarrow> Inl e
                | Inr rendered \<Rightarrow> Inr (concat rendered)))"

section \<open>The rich-text filter (customblocks/templatetags/customblocks\_tags.py)\<close>

text \<open>
  \<open>richtext(value)\<close> returns what the framework's \<open>expand_db_html\<close> returns for
  the value, and raises what it raises; the routine is a parameter.
\<close>

definition richtext :: "('v \<Rightarrow> 'e + html) \<Rightarrow> 'v \<Rightarrow> 'e + html" where
  "richtext expand_db_html v = expand_db_html v"

section \<open>The block declarations (customblocks/blocks.py)\<close>

definition FAQItemBlock :: block_def where
  "FAQItemBlock = StructBlock
     [(''question'', CharBlock True None (no_meta\<lparr>help_text := Some ''FAQ question''\<rparr>)),
      (''answer'', RichTextBlock True (no_meta\<lparr>help_text := Some ''FAQ answer''\<rparr>))]
     (no_meta\<lparr>icon := Some ''help'', label := Some ''FAQ Item''\<rparr>)"

definition FAQBlock :: block_def where
  "FAQBlock = StructBlock
     [(''title'', CharBlock False (Some ''Frequently Asked Questions'') no_meta),
      (''items'', ListBlock FAQItemBlock None
                   (no_meta\<lparr>help_text := Some ''Add FAQ question/answer pairs''\<rparr>))]
     (no_meta\<lparr>icon := Some ''help'', label := Some ''FAQ Section'',
               template := Some ''customblocks/blocks/faq_block.html''\<rparr>)"

definition TestimonialBlock :: block_def where
  "TestimonialBlock = StructBlock
     [(''quote'', TextBlock True (no_meta\<lparr>help_text := Some ''Testimonial text''\<rparr>)),
      (''name'', CharBlock True None (no_meta\<lparr>help_text := Some ''Person's name''\<rparr>)),
      (''role'', CharBlock False None (no_meta\<lparr>help_text := Some ''Role / Company''\<rparr>)),
      (''avatar'', ImageChooserBlock False no_meta)]
     (no_meta\<lparr>icon := Some ''user'', label := Some ''Testimonial''\<rparr>)"

definition TestimonialSliderBlock :: block_def where
  "TestimonialSliderBlock = StructBlock
     [(''title'', CharBlock False (Some ''What our customers say'') no_meta),
      (''testimonials'', ListBlock TestimonialBlock (Some 1) no_meta)]
     (no_meta\<lparr>icon := Some ''group'', label := Some ''Testimonial Slider'',
               template := Some ''customblocks/blocks/testimonial_slider.html''\<rparr>)"

definition CallToActionBlock :: block_def where
  "CallToActionBlock = StructBlock
     [(''eyebrow'', CharBlock False None
                     (no_meta\<lparr>help_text := Some ''Small text above headline''\<rparr>)),
      (''headline'', CharBlock True None no_meta),
      (''body'', RichTextBlock False no_meta),
      (''button_text'', CharBlock True (Some ''Get started'') no_meta),
      (''button_url'', URLBlock True no_meta),
      (''secondary_link_text'', CharBlock False None no_meta),
      (''secondary_link_url'', URLBlock False no_meta)]
     (no_meta\<lparr>icon := Some ''placeholder'', label := Some ''Call to Action'',
               template := Some ''customblocks/blocks/call_to_action.html''\<rparr>)"

section \<open>The stream fields of the pages (home/models.py, blog/models.py)\<close>

text \<open>
  A \<open>StreamField\<close> declaration: the block types of its vocabulary, in order, with the
  keyword arguments the source passes. The inline \<open>CharBlock\<close>, \<open>RichTextBlock\<close> and
  \<open>ImageChooserBlock\<close> of the pages do not write \<open>required\<close>; it is the framework's
  default, \<open>True\<close>.
\<close>

record stream_field =
  block_types :: "(string \<times> block_def) list"
  use_json_field :: bool
  blank :: bool

definition HomePage_body :: stream_field where
  "HomePage_body =
     \<lparr>block_types =
        [(''heading'', CharBlock True None (no_meta\<lparr>classname := Some ''full title''\<rparr>)),
         (''paragraph'', RichTextBlock True no_meta),
         (''faq'', FAQBlock),
         (''testimonials'', TestimonialSliderBlock),
         (''cta'', CallToActionBlock)],
      use_json_field = True,
      blank = True\<rparr>"

definition BlogPage_body :: stream_field where
  "BlogPage_body =
     \<lparr>block_types =
        [(''paragraph'', RichTextBlock True no_meta),
         (''image'', ImageChooserBlock True no_meta),
         (''heading'', CharBlock True None (no_meta\<lparr>classname := Some ''full title''\<rparr>))],
      use_json_field = True,
      blank = True\<rparr>"

text \<open>
  Every block a declaration contains: the block itself, the child of a list block and
  the children of a struct block, recursively, in declaration order.
\<close>

fun blocks_within :: "block_def \<Rightarrow> block_def list" where
  "blocks_within (ListBlock child min_num m) = ListBlock child min_num m # blocks_within child"
| "blocks_within (StructBlock children m) =
     StructBlock children m # concat (map (\<lambda>(name, child). blocks_within child) children)"
| "blocks_within b = [b]"

section \<open>Validation of block values\<close>

text \<open>
  The repository declares the blocks; validating a value against a declaration at save
  time is done by the framework's \<open>clean\<close> methods, which are not part of the
  repository's sources. The definitions of this section give them as the specification
  describes them, as an interpreter of the declarations above.
\<close>

text \<open>
  Modelled from the spec: the validation errors the framework raises: an error of one
  field, the errors of a list block (those of its items by index, and those of the
  list itself) and the errors of a struct block by sub-field name.
\<close>

datatype validation_error =
    ValidationError string
  | ListBlockValidationError "(nat \<times> validation_error) list" "validation_error list"
  | StructBlockValidationError "(string \<times> validation_error) list"

text \<open>
  Modelled from the spec: what counts as an empty (or missing) sub-field value, for
  "required sub-fields must be non-empty at save time": \<open>None\<close>, the empty string and
  the empty collections.
\<close>

fun is_empty_value :: "block_value \<Rightarrow> bool" where
  "is_empty_value NoneVal = True"
| "is_empty_value (StrVal s) = (s = [])"
| "is_empty_value (ImageVal n) = False"
| "is_empty_value (ListVal xs) = (xs = [])"
| "is_empty_value (StructVal kvs) = (kvs = [])"

text \<open>
  Modelled from the spec: the well-formed non-empty values of the field blocks: text
  for \<open>CharBlock\<close>, \<open>TextBlock\<close> and \<open>RichTextBlock\<close>; text that is a valid URL for
  \<open>URLBlock\<close>; a chosen image for \<open>ImageChooserBlock\<close>. The framework's URL syntax
  check is not in the sources and the specification only names it ("a valid URL"); it
  is the parameter \<open>valid_url\<close>.
\<close>

fun is_text :: "block_value \<Rightarrow> bool" where
  "is_text (StrVal s) = True"
| "is_text v = False"

fun is_url :: "(string \<Rightarrow> bool) \<Rightarrow> block_value \<Rightarrow> bool" where
  "is_url valid_url (StrVal s) = valid_url s"
| "is_url valid_url v = False"

fun is_image :: "block_value \<Rightarrow> bool" where
  "is_image (ImageVal n) = True"
| "is_image v = False"

text \<open>
  Modelled from the spec: validation of one field block's value (the framework's
  \<open>FieldBlock.clean\<close>): an empty value fails exactly when the sub-field is required,
  and a non-empty value must be well-formed for its block.
\<close>

definition clean_field ::
  "bool \<Rightarrow> (block_value \<Rightarrow> bool) \<Rightarrow> block_value \<Rightarrow> validation_error + block_value" where
  "clean_field required well_formed v =
     (if is_empty_value v
      then (if required then Inl (ValidationError ''required'') else Inr v)
      else if well_formed v then Inr v
      else Inl (ValidationError ''invalid''))"

text \<open>
  Modelled from the spec: the value of a named sub-field of a struct value; a sub-field
  that is missing counts as \<open>None\<close>.
\<close>

definition sub_value :: "(string \<times> block_value) list \<Rightarrow> string \<Rightarrow> block_value" where
  "sub_value kvs name = (case map_of kvs name of None \<Rightarrow> NoneVal | Some v \<Rightarrow> v)"

text \<open>
  Modelled from the spec: the errors, and the cleaned values, among the validation
  results of the children of a list or struct block, each under its index or name.
\<close>

fun errors_of :: "('k \<times> ('e + 'a)) list \<Rightarrow> ('k \<times> 'e) list" where
  "errors_of [] = []"
| "errors_of ((k, Inl e) # rs) = (k, e) # errors_of rs"
| "errors_of ((k, Inr v) # rs) = errors_of rs"

fun cleaned_of :: "('k \<times> ('e + 'a)) list \<Rightarrow> ('k \<times> 'a) list" where
  "cleaned_of [] = []"
| "cleaned_of ((k, Inl e) # rs) = cleaned_of rs"
| "cleaned_of ((k, Inr v) # rs) = (k, v) # cleaned_of rs"

text \<open>
  Modelled from the spec: validation of a value against a block declaration (the
  framework's \<open>clean\<close> of \<open>FieldBlock\<close>, \<open>ListBlock\<close> and \<open>StructBlock\<close>), which
  returns the cleaned value or raises a validation error. A list block validates every
  item against its child block and fails when an item fails or when there are fewer
  items than \<open>min_num\<close>; a missing list is the empty list. A struct block validates
  every declared sub-field and fails when one of them fails.
\<close>

fun clean ::
  "(string \<Rightarrow> bool) \<Rightarrow> block_def \<Rightarrow> block_value \<Rightarrow> validation_error + block_value" where
  "clean valid_url (CharBlock required dflt m) v = clean_field required is_text v"
| "clean valid_url (TextBlock required m) v = clean_field required is_text v"
| "clean valid_url (RichTextBlock required m) v = clean_field required is_text v"
| "clean valid_url (URLBlock required m) v = clean_field required (is_url valid_url) v"
| "clean valid_url (ImageChooserBlock required m) v = clean_field required is_image v"
| "clean valid_url (ListBlock child min_num m) v =
     (case (case v of NoneVal \<Rightarrow> Some [] | ListVal xs \<Rightarrow> Some xs | _ \<Rightarrow> None) of
        None \<Rightarrow> Inl (ValidationError ''invalid'')
      | Some xs \<Rightarrow>
          let results = zip [0 ..< length xs] (map (clean valid_url child) xs);
              block_errors = errors_of results;
              non_block_errors =
                (case min_num of
                   None \<Rightarrow> []
                 | Some n \<Rightarrow> if n > length xs then [ValidationError ''min_num''] else [])
          in if block_errors \<noteq> [] \<or> non_block_errors \<noteq> []
             then Inl (ListBlockValidationError block_errors non_block_errors)
             else Inr (ListVal (map snd (cleaned_of results))))"
| "clean valid_url (StructBlock children m) v =
     (case v of
        StructVal kvs \<Rightarrow>
          let results =
                map (\<lambda>(name, child). (name, clean valid_url child (sub_value kvs name))) children;
              errors = errors_of results
          in if errors \<noteq> [] then Inl (StructBlockValidationError errors)
             else Inr (StructVal (cleaned_of results))
      | _ \<Rightarrow> Inl (ValidationError ''invalid''))"

text \<open>
  Modelled from the spec: a value is accepted (the page saves) when validation returns
  a cleaned value, and rejected when validation raises.
\<close>

definition accepted :: "(string \<Rightarrow> bool) \<Rightarrow> block_def \<Rightarrow> block_value \<Rightarrow> bool" where
  "accepted valid_url b v = (case clean valid_url b v of Inl e \<Rightarrow> False | Inr c \<Rightarrow> True)"

text \<open>
  Modelled from the spec: a URL check with which validation is evaluated at concrete
  values, in place of the framework's, which is not in the sources: the text starts
  with \<open>http://\<close> or \<open>https://\<close> and has no space. The general theorems hold for
  every \<open>valid_url\<close>.
\<close>

definition has_web_scheme :: "string \<Rightarrow> bool" where
  "has_web_scheme u =
     ((take 7 u = ''http://'' \<or> take 8 u = ''https://'') \<and> CHR '' '' \<notin> set u)"

section \<open>Properties of the stream renderer\<close>

lemma render_loop_all_rendered:
  "list_all2 (\<lambda>b h. render (block b) (child_value b) ctx = Inr h) bs hs
   \<Longrightarrow> render_loop render ctx bs rendered = Inr (rendered @ hs)"
proof (induction bs arbitrary: hs rendered)
  case Nil
  then show ?case by simp
next
  case (Cons b bs)
  from Cons.prems obtain h hs' where
    hs: "hs = h # hs'" and
    h: "render (block b) (child_value b) ctx = Inr h" and
    rest: "list_all2 (\<lambda>b h. render (block b) (child_value b) ctx = Inr h) bs hs'"
    by (auto simp: list_all2_Cons1)
  from Cons.IH [OF rest] have
    "render_loop render ctx bs (rendered @ [h]) = Inr ((rendered @ [h]) @ hs')" .
  with hs h show ?case by simp
qed

lemma render_loop_first_error:
  "\<forall>p \<in> set pre. \<exists>h. render (block p) (child_value p) ctx = Inr h
   \<Longrightarrow> render (block b) (child_value b) ctx = Inl e
   \<Longrightarrow> render_loop render ctx (pre @ b # post) rendered = Inl e"
proof (induction pre arbitrary: rendered)
  case Nil
  then show ?case by simp
next
  case (Cons p pre)
  from Cons.prems(1) obtain h where h: "render (block p) (child_value p) ctx = Inr h"
    by auto
  from Cons.prems have
    "render_loop render ctx (pre @ b # post) (rendered @ [h]) = Inl e"
    by (intro Cons.IH) auto
  with h show ?case by simp
qed

lemma render_loop_raises_iff:
  "(\<exists>e. render_loop render ctx bs rendered = Inl e)
   \<longleftrightarrow> (\<exists>b \<in> set bs. \<exists>e. render (block b) (child_value b) ctx = Inl e)"
proof (induction bs arbitrary: rendered)
  case Nil
  show ?case by simp
next
  case (Cons b bs)
  show ?case
  proof (cases "render (block b) (child_value b) ctx")
    case (Inl e)
    then show ?thesis by auto
  next
    case (Inr h)
    then show ?thesis using Cons.IH [of "rendered @ [h]"] by auto
  qed
qed

text \<open>
  C1: when \<open>hs\<close> lists, in stream order, the HTML that each element's own block renders
  for that element's value in the given context, \<open>render_streamfield\<close> returns the
  concatenation of \<open>hs\<close>. In particular, for the stream of a heading \<open>Welcome\<close> and a
  paragraph \<open><p>Hi</p>\<close> the result is the heading's HTML immediately followed by the
  paragraph's HTML.
\<close>

theorem render_streamfield_concat:
  "(bs \<noteq> [] \<and> list_all2 (\<lambda>b h. render (block b) (child_value b) ctx = Inr h) bs hs
      \<longrightarrow> render_streamfield render ctx (Some bs) = Inr (concat hs))
   \<and> (render heading_block (StrVal ''Welcome'') ctx = Inr h1
        \<and> render paragraph_block (StrVal ''<p>Hi</p>'') ctx = Inr h2
      \<longrightarrow> render_streamfield render ctx
            (Some [\<lparr>block_type = ''heading'', block = heading_block, child_value = StrVal ''Welcome''\<rparr>,
                   \<lparr>block_type = ''paragraph'', block = paragraph_block,
                    child_value = StrVal ''<p>Hi</p>''\<rparr>])
          = Inr (h1 @ h2))"
proof (intro conjI impI)
  assume a: "bs \<noteq> [] \<and> list_all2 (\<lambda>b h. render (block b) (child_value b) ctx = Inr h) bs hs"
  then have "render_loop render ctx bs [] = Inr ([] @ hs)"
    by (intro render_loop_all_rendered) simp
  with a show "render_streamfield render ctx (Some bs) = Inr (concat hs)"
    by (simp add: render_streamfield_def)
next
  assume "render heading_block (StrVal ''Welcome'') ctx = Inr h1
            \<and> render paragraph_block (StrVal ''<p>Hi</p>'') ctx = Inr h2"
  then show "render_streamfield render ctx
      (Some [\<lparr>block_type = ''heading'', block = heading_block, child_value = StrVal ''Welcome''\<rparr>,
             \<lparr>block_type = ''paragraph'', block = paragraph_block,
              child_value = StrVal ''<p>Hi</p>''\<rparr>])
      = Inr (h1 @ h2)"
    by (simp add: render_streamfield_def)
qed

theorem render_streamfield_concat_witness:
  "list_all2
     (\<lambda>b h. (case child_value b of StrVal s \<Rightarrow> Inr s | _ \<Rightarrow> Inl ''TypeError'') = Inr h)
     [\<lparr>block_type = ''heading'',
       block = CharBlock True None (no_meta\<lparr>classname := Some ''full title''\<rparr>),
       child_value = StrVal ''Welcome''\<rparr>,
      \<lparr>block_type = ''paragraph'', block = RichTextBlock True no_meta,
       child_value = StrVal ''<p>Hi</p>''\<rparr>]
     [''Welcome'', ''<p>Hi</p>'']
   \<and> render_streamfield
        (\<lambda>b v c. case v of StrVal s \<Rightarrow> Inr s | _ \<Rightarrow> Inl ''TypeError'') ()
        (Some [\<lparr>block_type = ''heading'',
                block = CharBlock True None (no_meta\<lparr>classname := Some ''full title''\<rparr>),
                child_value = StrVal ''Welcome''\<rparr>,
               \<lparr>block_type = ''paragraph'', block = RichTextBlock True no_meta,
                child_value = StrVal ''<p>Hi</p>''\<rparr>])
      = Inr ''Welcome<p>Hi</p>''"
  using render_streamfield_concat
    [where render = "\<lambda>b v c. case v of StrVal s \<Rightarrow> Inr s | _ \<Rightarrow> Inl ''TypeError''"
       and ctx = "()"
       and bs = "[\<lparr>block_type = ''heading'',
                   block = CharBlock True None (no_meta\<lparr>classname := Some ''full title''\<rparr>),
                   child_value = StrVal ''Welcome''\<rparr>,
                  \<lparr>block_type = ''paragraph'', block = RichTextBlock True no_meta,
                   child_value = StrVal ''<p>Hi</p>''\<rparr>]"
       and hs = "[''Welcome'', ''<p>Hi</p>'']"
       and heading_block = "CharBlock True None (no_meta\<lparr>classname := Some ''full title''\<rparr>)"
       and paragraph_block = "RichTextBlock True no_meta"
       and ?h1.0 = "''Welcome''" and ?h2.0 = "''<p>Hi</p>''"]
  by simp

text \<open>
  C9: \<open>render_streamfield\<close> raises exactly when some element's render call raises, and
  the exception it raises is the one of the first element whose render call raises: it
  is not caught, the call is not repeated, and no HTML is returned in its place.
\<close>

theorem render_streamfield_propagates:
  "((\<exists>e. render_streamfield render ctx stream_value = Inl e)
      \<longleftrightarrow> (\<exists>bs. stream_value = Some bs
            \<and> (\<exists>b \<in> set bs. \<exists>e. render (block b) (child_value b) ctx = Inl e)))
   \<and> ((\<forall>p \<in> set pre. \<exists>h. render (block p) (child_value p) ctx = Inr h)
        \<and> render (block b) (child_value b) ctx = Inl e
      \<longrightarrow> render_streamfield render ctx (Some (pre @ b # post)) = Inl e)"
proof (intro conjI impI)
  show "(\<exists>e. render_streamfield render ctx stream_value = Inl e)
      \<longleftrightarrow> (\<exists>bs. stream_value = Some bs
            \<and> (\<exists>b \<in> set bs. \<exists>e. render (block b) (child_value b) ctx = Inl e))"
  proof (cases stream_value)
    case None
    then show ?thesis by (simp add: render_streamfield_def)
  next
    case (Some bs)
    have "(\<exists>e. render_streamfield render ctx (Some bs) = Inl e)
          \<longleftrightarrow> (\<exists>e. render_loop render ctx bs [] = Inl e)"
      by (cases bs) (auto simp: render_streamfield_def split: sum.splits)
    with Some show ?thesis
      by (simp add: render_loop_raises_iff)
  qed
next
  assume "(\<forall>p \<in> set pre. \<exists>h. render (block p) (child_value p) ctx = Inr h)
        \<and> render (block b) (child_value b) ctx = Inl e"
  then have "render_loop render ctx (pre @ b # post) [] = Inl e"
    by (intro render_loop_first_error) auto
  then show "render_streamfield render ctx (Some (pre @ b # post)) = Inl e"
    by (simp add: render_streamfield_def)
qed

theorem render_streamfield_propagates_witness:
  "(case StrVal ''Welcome'' of StrVal s \<Rightarrow> Inr s | _ \<Rightarrow> Inl ''TypeError'')
     = (Inr ''Welcome'' :: string + html)
   \<and> (case NoneVal of StrVal s \<Rightarrow> Inr s | _ \<Rightarrow> Inl ''TypeError'') = Inl ''TypeError''
   \<and> render_streamfield
        (\<lambda>b v c. case v of StrVal s \<Rightarrow> Inr s | _ \<Rightarrow> Inl ''TypeError'') ()
        (Some [\<lparr>block_type = ''heading'',
                block = CharBlock True None (no_meta\<lparr>classname := Some ''full title''\<rparr>),
                child_value = StrVal ''Welcome''\<rparr>,
               \<lparr>block_type = ''image'', block = ImageChooserBlock True no_meta,
                child_value = NoneVal\<rparr>,
               \<lparr>block_type = ''paragraph'', block = RichTextBlock True no_meta,
                child_value = StrVal ''<p>Hi</p>''\<rparr>])
      = Inl ''TypeError''"
  using render_streamfield_propagates
    [where render = "\<lambda>b v c. case v of StrVal s \<Rightarrow> Inr s | _ \<Rightarrow> Inl ''TypeError''"
       and ctx = "()"
       and stream_value = None
       and pre = "[\<lparr>block_type = ''heading'',
                    block = CharBlock True None (no_meta\<lparr>classname := Some ''full title''\<rparr>),
                    child_value = StrVal ''Welcome''\<rparr>]"
       and b = "\<lparr>block_type = ''image'', block = ImageChooserBlock True no_meta,
                 child_value = NoneVal\<rparr>"
       and post = "[\<lparr>block_type = ''paragraph'', block = RichTextBlock True no_meta,
                     child_value = StrVal ''<p>Hi</p>''\<rparr>]"
       and e = "''TypeError''"]
  by simp

text \<open>
  C2: for an absent (\<open>None\<close>) or empty stream value, \<open>render_streamfield\<close> returns the
  empty string, whatever the rendering context and whatever the blocks' rendering rule.
\<close>

theorem render_streamfield_empty:
  "render_streamfield render ctx None = Inr ''''
   \<and> render_streamfield render ctx (Some []) = Inr ''''"
  by (simp add: render_streamfield_def)

section \<open>Properties of the declarations\<close>

text \<open>
  C8: among all blocks declared by the two pages' stream fields, nested blocks
  included, exactly three declare a template: the FAQ section, the testimonial slider
  and the call to action, each with its own template file. \<open>FAQItemBlock\<close>,
  \<open>TestimonialBlock\<close> and the inline heading, paragraph and image blocks declare none.
\<close>

theorem templates_declared:
  "filter (\<lambda>b. template (block_meta b) \<noteq> None)
      (concat (map (\<lambda>(name, b). blocks_within b)
                 (block_types HomePage_body @ block_types BlogPage_body)))
     = [FAQBlock, TestimonialSliderBlock, CallToActionBlock]
   \<and> map (\<lambda>b. template (block_meta b)) [FAQBlock, TestimonialSliderBlock, CallToActionBlock]
     = [Some ''customblocks/blocks/faq_block.html'',
        Some ''customblocks/blocks/testimonial_slider.html'',
        Some ''customblocks/blocks/call_to_action.html'']
   \<and> map (\<lambda>b. template (block_meta b)) [FAQItemBlock, TestimonialBlock] = [None, None]
   \<and> map (\<lambda>(name, b). (name, template (block_meta b))) (block_types BlogPage_body)
     = [(''paragraph'', None), (''image'', None), (''heading'', None)]
   \<and> map (\<lambda>(name, b). (name, template (block_meta b))) (block_types HomePage_body)
     = [(''heading'', None), (''paragraph'', None),
        (''faq'', Some ''customblocks/blocks/faq_block.html''),
        (''testimonials'', Some ''customblocks/blocks/testimonial_slider.html''),
        (''cta'', Some ''customblocks/blocks/call_to_action.html'')]"
  by (simp add: HomePage_body_def BlogPage_body_def FAQBlock_def FAQItemBlock_def
      TestimonialSliderBlock_def TestimonialBlock_def CallToActionBlock_def no_meta_def)

section \<open>Properties of validation\<close>

lemma accepted_iff: "accepted valid_url b v \<longleftrightarrow> \<not> isl (clean valid_url b v)"
  by (simp add: accepted_def split: sum.splits)

lemma errors_of_empty_iff:
  "errors_of rs = [] \<longleftrightarrow> (\<forall>(k, r) \<in> set rs. \<not> isl r)"
  by (induction rs rule: errors_of.induct) auto

lemma errors_of_zip_empty_iff:
  "length ks = length rs \<Longrightarrow> errors_of (zip ks rs) = [] \<longleftrightarrow> (\<forall>r \<in> set rs. \<not> isl r)"
proof (induction ks rs rule: list_induct2)
  case Nil
  show ?case by simp
next
  case (Cons k ks r rs)
  then show ?case by (cases r) auto
qed

lemma sub_value_simps:
  "sub_value [] name = NoneVal"
  "sub_value ((k, x) # kvs) name = (if k = name then x else sub_value kvs name)"
  by (simp_all add: sub_value_def)

text \<open>What each kind of block accepts, read off \<open>clean\<close>.\<close>

lemma accepted_field:
  "accepted valid_url (CharBlock required dflt m) v
     \<longleftrightarrow> (if is_empty_value v then \<not> required else is_text v)"
  "accepted valid_url (TextBlock required m) v
     \<longleftrightarrow> (if is_empty_value v then \<not> required else is_text v)"
  "accepted valid_url (RichTextBlock required m) v
     \<longleftrightarrow> (if is_empty_value v then \<not> required else is_text v)"
  "accepted valid_url (URLBlock required m) v
     \<longleftrightarrow> (if is_empty_value v then \<not> required else is_url valid_url v)"
  "accepted valid_url (ImageChooserBlock required m) v
     \<longleftrightarrow> (if is_empty_value v then \<not> required else is_image v)"
  by (simp_all add: accepted_def clean_field_def)

lemma accepted_StructBlock:
  "accepted valid_url (StructBlock children m) v
     \<longleftrightarrow> (\<exists>kvs. v = StructVal kvs
           \<and> (\<forall>(name, child) \<in> set children. accepted valid_url child (sub_value kvs name)))"
  by (cases v) (auto simp: accepted_iff Let_def errors_of_empty_iff)

lemma accepted_ListBlock:
  "accepted valid_url (ListBlock child min_num m) v
     \<longleftrightarrow> (\<exists>xs. (v = NoneVal \<and> xs = [] \<or> v = ListVal xs)
           \<and> (\<forall>x \<in> set xs. accepted valid_url child x)
           \<and> (case min_num of None \<Rightarrow> True | Some n \<Rightarrow> n \<le> length xs))"
  by (cases v) (auto simp: accepted_iff Let_def errors_of_zip_empty_iff split: option.splits)

text \<open>
  A call to action whose optional \<open>secondary_link_url\<close> holds a non-empty text that is
  not a valid URL is rejected, whatever its other sub-fields hold.
\<close>

lemma call_to_action_secondary_link_checked:
  "\<not> is_empty_value (sub_value kvs ''secondary_link_url'')
   \<Longrightarrow> \<not> is_url valid_url (sub_value kvs ''secondary_link_url'')
   \<Longrightarrow> \<not> accepted valid_url CallToActionBlock (StructVal kvs)"
  by (simp add: CallToActionBlock_def accepted_StructBlock accepted_field)

text \<open>
  C3: a \<open>TestimonialSliderBlock\<close> value with no testimonials (the list empty or
  missing) is rejected, and a value with one or more testimonials, each of them valid,
  and a well-formed optional title is accepted.
\<close>

theorem testimonial_slider_min_num:
  "(is_empty_value (sub_value kvs ''testimonials'')
      \<longrightarrow> \<not> accepted valid_url TestimonialSliderBlock (StructVal kvs))
   \<and> ((is_empty_value (sub_value kvs ''title'') \<or> is_text (sub_value kvs ''title''))
        \<and> sub_value kvs ''testimonials'' = ListVal ts \<and> ts \<noteq> []
        \<and> (\<forall>t \<in> set ts. accepted valid_url TestimonialBlock t)
      \<longrightarrow> accepted valid_url TestimonialSliderBlock (StructVal kvs))"
proof (intro conjI impI)
  assume "is_empty_value (sub_value kvs ''testimonials'')"
  then show "\<not> accepted valid_url TestimonialSliderBlock (StructVal kvs)"
    by (cases "sub_value kvs ''testimonials''")
      (auto simp: TestimonialSliderBlock_def accepted_StructBlock accepted_ListBlock)
next
  assume "(is_empty_value (sub_value kvs ''title'') \<or> is_text (sub_value kvs ''title''))
        \<and> sub_value kvs ''testimonials'' = ListVal ts \<and> ts \<noteq> []
        \<and> (\<forall>t \<in> set ts. accepted valid_url TestimonialBlock t)"
  then show "accepted valid_url TestimonialSliderBlock (StructVal kvs)"
    by (auto simp: TestimonialSliderBlock_def accepted_StructBlock accepted_ListBlock
        accepted_field Suc_le_eq)
qed

theorem testimonial_slider_min_num_witness:
  "is_empty_value (sub_value [(''title'', StrVal ''What our customers say''),
                              (''testimonials'', ListVal [])] ''testimonials'')
   \<and> \<not> accepted has_web_scheme TestimonialSliderBlock
        (StructVal [(''title'', StrVal ''What our customers say''),
                    (''testimonials'', ListVal [])])
   \<and> accepted has_web_scheme TestimonialBlock
        (StructVal [(''quote'', StrVal ''Great service''), (''name'', StrVal ''Asha'')])
   \<and> accepted has_web_scheme TestimonialSliderBlock
        (StructVal [(''title'', StrVal ''What our customers say''),
                    (''testimonials'',
                     ListVal [StructVal [(''quote'', StrVal ''Great service''),
                                         (''name'', StrVal ''Asha'')]])])"
  using
    testimonial_slider_min_num
      [where valid_url = has_web_scheme
         and kvs = "[(''title'', StrVal ''What our customers say''),
                     (''testimonials'', ListVal [])]"]
    testimonial_slider_min_num
      [where valid_url = has_web_scheme
         and kvs = "[(''title'', StrVal ''What our customers say''),
                     (''testimonials'',
                      ListVal [StructVal [(''quote'', StrVal ''Great service''),
                                          (''name'', StrVal ''Asha'')]])]"
         and ts = "[StructVal [(''quote'', StrVal ''Great service''),
                               (''name'', StrVal ''Asha'')]]"]
  by (simp add: sub_value_simps TestimonialBlock_def accepted_StructBlock accepted_field)

text \<open>
  C4, as amended: a \<open>CallToActionBlock\<close> value whose \<open>button_url\<close> is missing or empty
  is rejected; a value is accepted when \<open>button_url\<close> is a valid URL, \<open>headline\<close> and
  \<open>button_text\<close> are non-empty text, and every optional sub-field is empty or
  well-formed: text for \<open>eyebrow\<close>, \<open>body\<close> and \<open>secondary_link_text\<close>, a valid URL
  for \<open>secondary_link_url\<close>.
\<close>

theorem call_to_action_validation:
  "(is_empty_value (sub_value kvs ''button_url'')
      \<longrightarrow> \<not> accepted valid_url CallToActionBlock (StructVal kvs))
   \<and> (\<not> is_empty_value (sub_value kvs ''button_url'')
        \<and> is_url valid_url (sub_value kvs ''button_url'')
        \<and> \<not> is_empty_value (sub_value kvs ''headline'') \<and> is_text (sub_value kvs ''headline'')
        \<and> \<not> is_empty_value (sub_value kvs ''button_text'')
        \<and> is_text (sub_value kvs ''button_text'')
        \<and> (is_empty_value (sub_value kvs ''eyebrow'') \<or> is_text (sub_value kvs ''eyebrow''))
        \<and> (is_empty_value (sub_value kvs ''body'') \<or> is_text (sub_value kvs ''body''))
        \<and> (is_empty_value (sub_value kvs ''secondary_link_text'')
            \<or> is_text (sub_value kvs ''secondary_link_text''))
        \<and> (is_empty_value (sub_value kvs ''secondary_link_url'')
            \<or> is_url valid_url (sub_value kvs ''secondary_link_url''))
      \<longrightarrow> accepted valid_url CallToActionBlock (StructVal kvs))"
  by (auto simp: CallToActionBlock_def accepted_StructBlock accepted_field)

theorem call_to_action_validation_witness:
  "is_empty_value (sub_value [(''headline'', StrVal ''Join us''),
                              (''button_text'', StrVal ''Get started'')] ''button_url'')
   \<and> \<not> accepted has_web_scheme CallToActionBlock
        (StructVal [(''headline'', StrVal ''Join us''),
                    (''button_text'', StrVal ''Get started'')])
   \<and> is_url has_web_scheme (StrVal ''https://example.com/start'')
   \<and> accepted has_web_scheme CallToActionBlock
        (StructVal [(''headline'', StrVal ''Join us''),
                    (''button_text'', StrVal ''Get started''),
                    (''button_url'', StrVal ''https://example.com/start''),
                    (''secondary_link_url'', StrVal ''https://example.com/more'')])"
  using
    call_to_action_validation
      [where valid_url = has_web_scheme
         and kvs = "[(''headline'', StrVal ''Join us''),
                     (''button_text'', StrVal ''Get started'')]"]
    call_to_action_validation
      [where valid_url = has_web_scheme
         and kvs = "[(''headline'', StrVal ''Join us''),
                     (''button_text'', StrVal ''Get started''),
                     (''button_url'', StrVal ''https://example.com/start''),
                     (''secondary_link_url'', StrVal ''https://example.com/more'')]"]
  by (simp add: sub_value_simps has_web_scheme_def)

text \<open>
  C4, as stated, fails: this value has a valid \<open>button_url\<close> and a non-empty
  \<open>headline\<close> and \<open>button_text\<close>, and it is rejected, because the text of its
  optional \<open>secondary_link_url\<close> is not a URL.
\<close>

theorem call_to_action_bad_secondary_link:
  "\<not> is_empty_value (StrVal ''https://example.com/start'')
   \<and> is_url has_web_scheme (StrVal ''https://example.com/start'')
   \<and> \<not> is_empty_value (StrVal ''Join us'') \<and> is_text (StrVal ''Join us'')
   \<and> \<not> is_empty_value (StrVal ''Get started'') \<and> is_text (StrVal ''Get started'')
   \<and> \<not> accepted has_web_scheme CallToActionBlock
        (StructVal [(''headline'', StrVal ''Join us''),
                    (''button_text'', StrVal ''Get started''),
                    (''button_url'', StrVal ''https://example.com/start''),
                    (''secondary_link_url'', StrVal ''not a url'')])"
  by (simp add: CallToActionBlock_def accepted_StructBlock accepted_field sub_value_simps
      has_web_scheme_def)

text \<open>
  C6: an accepted \<open>FAQItemBlock\<close> value has a non-empty \<open>question\<close> and \<open>answer\<close>,
  and an accepted \<open>TestimonialBlock\<close> value has a non-empty \<open>quote\<close> and \<open>name\<close>; a
  value in which one of these sub-fields is empty or missing is rejected.
\<close>

theorem required_subfields_nonempty:
  "(accepted valid_url FAQItemBlock v
      \<longrightarrow> (\<exists>kvs. v = StructVal kvs
            \<and> \<not> is_empty_value (sub_value kvs ''question'')
            \<and> \<not> is_empty_value (sub_value kvs ''answer'')))
   \<and> (accepted valid_url TestimonialBlock v
      \<longrightarrow> (\<exists>kvs. v = StructVal kvs
            \<and> \<not> is_empty_value (sub_value kvs ''quote'')
            \<and> \<not> is_empty_value (sub_value kvs ''name'')))
   \<and> (is_empty_value (sub_value kvs ''question'') \<or> is_empty_value (sub_value kvs ''answer'')
      \<longrightarrow> \<not> accepted valid_url FAQItemBlock (StructVal kvs))
   \<and> (is_empty_value (sub_value kvs ''quote'') \<or> is_empty_value (sub_value kvs ''name'')
      \<longrightarrow> \<not> accepted valid_url TestimonialBlock (StructVal kvs))"
  by (auto simp: FAQItemBlock_def TestimonialBlock_def accepted_StructBlock accepted_field
      split: if_splits)

theorem required_subfields_nonempty_witness:
  "accepted has_web_scheme FAQItemBlock
     (StructVal [(''question'', StrVal ''What is this?''), (''answer'', StrVal ''<p>A demo.</p>'')])
   \<and> accepted has_web_scheme TestimonialBlock
        (StructVal [(''quote'', StrVal ''Great service''), (''name'', StrVal ''Asha'')])
   \<and> is_empty_value (sub_value [(''question'', StrVal ''What is this?''),
                                 (''answer'', StrVal '''')] ''answer'')
   \<and> \<not> accepted has_web_scheme FAQItemBlock
        (StructVal [(''question'', StrVal ''What is this?''), (''answer'', StrVal '''')])
   \<and> is_empty_value (sub_value [(''quote'', StrVal ''Great service'')] ''name'')
   \<and> \<not> accepted has_web_scheme TestimonialBlock
        (StructVal [(''quote'', StrVal ''Great service'')])"
  using
    required_subfields_nonempty
      [where valid_url = has_web_scheme
         and v = "StructVal [(''question'', StrVal ''What is this?''),
                             (''answer'', StrVal ''<p>A demo.</p>'')]"
         and kvs = "[(''question'', StrVal ''What is this?''), (''answer'', StrVal '''')]"]
    required_subfields_nonempty
      [where valid_url = has_web_scheme
         and v = "StructVal [(''quote'', StrVal ''Great service''), (''name'', StrVal ''Asha'')]"
         and kvs = "[(''quote'', StrVal ''Great service'')]"]
  by (simp add: sub_value_simps FAQItemBlock_def TestimonialBlock_def accepted_StructBlock
      accepted_field)

text \<open>
  C10: \<open>FAQBlock\<close> places no minimum on its items: a value whose items list is empty
  or missing is accepted, as is one with any number of valid items, provided the
  optional title is well-formed; the testimonial slider rejects an empty list.
\<close>

theorem faq_items_no_minimum:
  "((is_empty_value (sub_value kvs ''title'') \<or> is_text (sub_value kvs ''title''))
      \<and> (sub_value kvs ''items'' = ListVal [] \<or> sub_value kvs ''items'' = NoneVal)
      \<longrightarrow> accepted valid_url FAQBlock (StructVal kvs))
   \<and> ((is_empty_value (sub_value kvs ''title'') \<or> is_text (sub_value kvs ''title''))
      \<and> sub_value kvs ''items'' = ListVal xs
      \<and> (\<forall>x \<in> set xs. accepted valid_url FAQItemBlock x)
      \<longrightarrow> accepted valid_url FAQBlock (StructVal kvs))
   \<and> \<not> accepted valid_url TestimonialSliderBlock
        (StructVal [(''title'', title), (''testimonials'', ListVal [])])"
  by (auto simp: FAQBlock_def TestimonialSliderBlock_def accepted_StructBlock accepted_ListBlock
      accepted_field sub_value_simps)

theorem faq_items_no_minimum_witness:
  "is_text (sub_value [(''title'', StrVal ''Frequently Asked Questions''),
                       (''items'', ListVal [])] ''title'')
   \<and> sub_value [(''title'', StrVal ''Frequently Asked Questions''),
                 (''items'', ListVal [])] ''items'' = ListVal []
   \<and> accepted has_web_scheme FAQBlock
        (StructVal [(''title'', StrVal ''Frequently Asked Questions''), (''items'', ListVal [])])
   \<and> \<not> accepted has_web_scheme TestimonialSliderBlock
        (StructVal [(''title'', StrVal ''What our customers say''),
                    (''testimonials'', ListVal [])])"
  using
    faq_items_no_minimum
      [where valid_url = has_web_scheme
         and kvs = "[(''title'', StrVal ''Frequently Asked Questions''), (''items'', ListVal [])]"
         and xs = "[]"
         and title = "StrVal ''What our customers say''"]
  by (simp add: sub_value_simps)

end
